theory Spec2Isabelle
  imports Main "HOL-Library.Word"
begin

section \<open>The window and framebuffer-presentation subsystem\<close>

text \<open>
  A shallow embedding of \<^verbatim>\<open>platform_windows.cpp\<close> (class \<^verbatim>\<open>Rasterizer::Windows::Window\<close>),
  of the factory \<^verbatim>\<open>IWindow::Create\<close> and of the runtime's \<^verbatim>\<open>main\<close>.

  The C++ code talks to the operating system through Win32 calls. The operating
  system is not part of the repository, so the model carries a \<open>world\<close> record: the
  thread's message queue, the strings the caller owns, the outcomes the platform will
  give to window creation and to allocation, and a trace of every platform call made.
  Methods take the object and the world and return both.
\<close>

subsection \<open>Machine types\<close>

type_synonym cint = "32 word" \<comment> \<open>C++ \<^verbatim>\<open>int\<close>, read with \<open>sint\<close>\<close>
type_synonym u32 = "32 word"
type_synonym UINT = "32 word"
type_synonym HWND = "nat option" \<comment> \<open>a window handle; \<open>None\<close> is \<^verbatim>\<open>NULL\<close>\<close>
type_synonym string_ref = nat \<comment> \<open>the address of a \<^verbatim>\<open>std::string\<close> object\<close>

datatype error =
    Length_error \<comment> \<open>\<^verbatim>\<open>std::length_error\<close> thrown by \<^verbatim>\<open>resize\<close>\<close>
  | Bad_alloc \<comment> \<open>\<^verbatim>\<open>std::bad_alloc\<close> thrown by \<^verbatim>\<open>resize\<close>\<close>
  | Invalid_reference \<comment> \<open>undefined behaviour: a reference to a string that is gone\<close>
  | Null_dereference \<comment> \<open>undefined behaviour: a method called through a null pointer\<close>

text \<open>
  The constructor multiplies and negates \<^verbatim>\<open>int\<close> values with no check. Where the exact
  result does not fit an \<^verbatim>\<open>int\<close> the C++ standard leaves the behaviour undefined; the
  compiled program wraps around and goes on, and so does the model: \<open>*\<close> and unary
  \<open>-\<close> on \<open>cint\<close> are those of \<open>32 word\<close>. The values an \<^verbatim>\<open>int\<close> can hold:
\<close>

definition int_in_range :: "int \<Rightarrow> bool" where
  "int_in_range i \<longleftrightarrow> - (2 ^ 31) \<le> i \<and> i < 2 ^ 31"

text \<open>The conversion of an \<^verbatim>\<open>int\<close> to \<^verbatim>\<open>size_t\<close> (64 bits): modulo \<open>2 ^ 64\<close>.\<close>

definition to_size_t :: "cint \<Rightarrow> nat" where
  "to_size_t i = nat (sint i mod 2 ^ 64)"

subsection \<open>Win32 data\<close>

record MSG =
  hwnd :: HWND
  message :: UINT
  wParam :: nat
  lParam :: nat

definition WM_DESTROY :: UINT where "WM_DESTROY = 0x0002"
definition WM_QUIT :: UINT where "WM_QUIT = 0x0012"
definition BI_RGB :: "32 word" where "BI_RGB = 0"
definition sizeof_BITMAPINFOHEADER :: "32 word" where "sizeof_BITMAPINFOHEADER = 40"

record BITMAPINFOHEADER =
  biSize :: "32 word"
  biWidth :: cint
  biHeight :: cint
  biPlanes :: "16 word"
  biBitCount :: "16 word"
  biCompression :: "32 word"
  biSizeImage :: "32 word"
  biXPelsPerMeter :: cint
  biYPelsPerMeter :: cint
  biClrUsed :: "32 word"
  biClrImportant :: "32 word"

record BITMAPINFO =
  bmiHeader :: BITMAPINFOHEADER
  bmiColors :: "32 word"

text \<open>The value of \<^verbatim>\<open>BITMAPINFO m_bmi = {}\<close>: every field zero.\<close>

definition zero_BITMAPINFO :: BITMAPINFO where
  "zero_BITMAPINFO =
     \<lparr>bmiHeader = \<lparr>biSize = 0, biWidth = 0, biHeight = 0, biPlanes = 0, biBitCount = 0,
        biCompression = 0, biSizeImage = 0, biXPelsPerMeter = 0, biYPelsPerMeter = 0,
        biClrUsed = 0, biClrImportant = 0\<rparr>,
      bmiColors = 0\<rparr>"

datatype HDC = DC HWND \<comment> \<open>the device context of a window (of the screen for \<^verbatim>\<open>NULL\<close>)\<close>

subsection \<open>The world outside the program\<close>

datatype event =
    E_RegisterClass
  | E_CreateWindowEx string cint cint HWND \<comment> \<open>title, width, height, returned handle\<close>
  | E_ShowWindow HWND
  | E_DestroyWindow HWND
  | E_TranslateMessage MSG
  | E_DispatchMessage MSG
  | E_DefWindowProc HWND UINT nat nat
  | E_PostQuitMessage nat
  | E_GetDC HWND
  | E_StretchDIBits HDC "cint \<times> cint \<times> cint \<times> cint" "cint \<times> cint \<times> cint \<times> cint"
      "u32 list" BITMAPINFO
  | E_ReleaseDC HWND HDC

record world =
  strings :: "string_ref \<Rightarrow> string option" \<comment> \<open>live \<^verbatim>\<open>std::string\<close> objects of the caller\<close>
  queue :: "MSG list" \<comment> \<open>the calling thread's message queue, oldest first\<close>
  hwnd_supply :: "HWND list" \<comment> \<open>what the next calls of \<^verbatim>\<open>CreateWindowEx\<close> return\<close>
  heap_limit :: nat \<comment> \<open>the largest element count \<^verbatim>\<open>resize\<close> can obtain\<close>
  trace :: "event list" \<comment> \<open>the platform calls made so far, oldest first\<close>

definition emit :: "event \<Rightarrow> world \<Rightarrow> world" where
  "emit e s = s\<lparr>trace := trace s @ [e]\<rparr>"

text \<open>
  The platform calls, each by the part of its documented contract the program relies
  on. \<^verbatim>\<open>CreateWindowEx\<close> may fail: its result is taken from \<open>hwnd_supply\<close> (\<^verbatim>\<open>NULL\<close>
  when the supply is empty). \<^verbatim>\<open>PeekMessage\<close> with \<^verbatim>\<open>PM_REMOVE\<close> never waits: it
  takes the oldest message off the queue, or reports that there is none.
  \<^verbatim>\<open>PostQuitMessage\<close> places a \<^verbatim>\<open>WM_QUIT\<close> thread message (no window) on the queue.
  \<^verbatim>\<open>TranslateMessage\<close>, \<^verbatim>\<open>DefWindowProc\<close>, \<^verbatim>\<open>ShowWindow\<close>, \<^verbatim>\<open>DestroyWindow\<close> and the
  drawing calls are opaque: the trace records them with their arguments.
\<close>

definition RegisterClass :: "world \<Rightarrow> world" where
  "RegisterClass s = emit E_RegisterClass s"

definition CreateWindowEx :: "string \<Rightarrow> cint \<Rightarrow> cint \<Rightarrow> world \<Rightarrow> HWND \<times> world" where
  "CreateWindowEx title nWidth nHeight s =
     (case hwnd_supply s of
        [] \<Rightarrow> (None, emit (E_CreateWindowEx title nWidth nHeight None) s)
      | r # rs \<Rightarrow> (r, emit (E_CreateWindowEx title nWidth nHeight r) (s\<lparr>hwnd_supply := rs\<rparr>)))"

definition ShowWindow :: "HWND \<Rightarrow> world \<Rightarrow> world" where
  "ShowWindow h s = emit (E_ShowWindow h) s"

definition DestroyWindow :: "HWND \<Rightarrow> world \<Rightarrow> world" where
  "DestroyWindow h s = emit (E_DestroyWindow h) s"

definition PostQuitMessage :: "nat \<Rightarrow> world \<Rightarrow> world" where
  "PostQuitMessage nExitCode s =
     emit (E_PostQuitMessage nExitCode)
       (s\<lparr>queue := queue s @ [\<lparr>hwnd = None, message = WM_QUIT, wParam = nExitCode, lParam = 0\<rparr>]\<rparr>)"

definition DefWindowProc :: "HWND \<Rightarrow> UINT \<Rightarrow> nat \<Rightarrow> nat \<Rightarrow> world \<Rightarrow> world" where
  "DefWindowProc h uMsg wp lp s = emit (E_DefWindowProc h uMsg wp lp) s"

definition PeekMessage :: "world \<Rightarrow> MSG option \<times> world" where
  "PeekMessage s = (case queue s of [] \<Rightarrow> (None, s) | m # ms \<Rightarrow> (Some m, s\<lparr>queue := ms\<rparr>))"

definition TranslateMessage :: "MSG \<Rightarrow> world \<Rightarrow> world" where
  "TranslateMessage msg s = emit (E_TranslateMessage msg) s"

definition GetDC :: "HWND \<Rightarrow> world \<Rightarrow> HDC \<times> world" where
  "GetDC h s = (DC h, emit (E_GetDC h) s)"

definition StretchDIBits ::
  "HDC \<Rightarrow> cint \<Rightarrow> cint \<Rightarrow> cint \<Rightarrow> cint \<Rightarrow> cint \<Rightarrow> cint \<Rightarrow> cint \<Rightarrow> cint \<Rightarrow> u32 list \<Rightarrow> BITMAPINFO
     \<Rightarrow> world \<Rightarrow> world" where
  "StretchDIBits hdc xDest yDest DestWidth DestHeight xSrc ySrc SrcWidth SrcHeight lpBits lpbmi s =
     emit (E_StretchDIBits hdc (xDest, yDest, DestWidth, DestHeight)
             (xSrc, ySrc, SrcWidth, SrcHeight) lpBits lpbmi) s"

definition ReleaseDC :: "HWND \<Rightarrow> HDC \<Rightarrow> world \<Rightarrow> world" where
  "ReleaseDC h hdc s = emit (E_ReleaseDC h hdc) s"

text \<open>
  \<^verbatim>\<open>std::vector<u32>::resize(n, v)\<close>: the first \<open>n\<close> elements are kept and the vector is
  padded with \<open>v\<close> up to length \<open>n\<close>. It throws \<^verbatim>\<open>std::length_error\<close> when \<open>n\<close> is
  above \<^verbatim>\<open>max_size()\<close> (for 4-byte elements and a 64-bit \<^verbatim>\<open>size_t\<close>, a quarter of
  the largest \<^verbatim>\<open>size_t\<close>), and \<^verbatim>\<open>std::bad_alloc\<close> when the memory cannot be had.
\<close>

definition vector_max_size :: nat where
  "vector_max_size = (2 ^ 64 - 1) div 4"

definition vector_resize :: "u32 list \<Rightarrow> nat \<Rightarrow> u32 \<Rightarrow> world \<Rightarrow> error + u32 list" where
  "vector_resize xs n v s =
     (if vector_max_size < n then Inl Length_error
      else if heap_limit s < n then Inl Bad_alloc
      else Inr (take n xs @ replicate (n - length xs) v))"

subsection \<open>The window procedure and message dispatch\<close>

definition WindowProc :: "HWND \<Rightarrow> UINT \<Rightarrow> nat \<Rightarrow> nat \<Rightarrow> world \<Rightarrow> world" where
  "WindowProc h uMsg wp lp s =
     (if uMsg = WM_DESTROY then PostQuitMessage 0 s
      else DefWindowProc h uMsg wp lp s)"

text \<open>
  \<^verbatim>\<open>DispatchMessage\<close> hands a message to the window procedure of its window. Every
  window of the program has the class registered by the constructor, hence
  \<open>WindowProc\<close>. A thread message (\<^verbatim>\<open>hwnd == NULL\<close>, as \<^verbatim>\<open>WM_QUIT\<close> is) reaches no
  window procedure.
\<close>

definition DispatchMessage :: "MSG \<Rightarrow> world \<Rightarrow> world" where
  "DispatchMessage msg s =
     (case hwnd msg of
        None \<Rightarrow> emit (E_DispatchMessage msg) s
      | Some h \<Rightarrow> WindowProc (Some h) (message msg) (wParam msg) (lParam msg)
                    (emit (E_DispatchMessage msg) s))"

subsection \<open>The class \<^verbatim>\<open>Window\<close>\<close>

record WindowHandle =
  handle :: HWND

text \<open>
  The member \<^verbatim>\<open>m_title\<close> is declared \<^verbatim>\<open>const std::string&\<close>: the object holds a
  reference to the caller's string, not a copy. Its value is read from the world.
\<close>

record Window =
  m_title :: string_ref
  m_width :: cint
  m_height :: cint
  m_is_open :: bool
  m_window_handle :: WindowHandle
  m_framebuffer :: "u32 list"
  m_bmi :: BITMAPINFO

definition Window_ctor :: "string_ref \<Rightarrow> cint \<Rightarrow> cint \<Rightarrow> world \<Rightarrow> (error + Window) \<times> world" where
  "Window_ctor title width height s0 =
     (let w0 = \<lparr>m_title = title, m_width = width, m_height = height, m_is_open = False,
                m_window_handle = \<lparr>handle = None\<rparr>, m_framebuffer = [],
                m_bmi = zero_BITMAPINFO\<rparr>;
          s1 = RegisterClass s0
      in case strings s1 (m_title w0) of
           None \<Rightarrow> (Inl Invalid_reference, s1)
         | Some c_str \<Rightarrow>
            (let (hwnd', s2) = CreateWindowEx c_str (m_width w0) (m_height w0) s1;
                 \<comment> \<open>\<^verbatim>\<open>if (hwnd == NULL) { /* Handle error */ }\<close>: an empty branch\<close>
                 s3 = ShowWindow hwnd' s2;
                 w1 = w0\<lparr>m_window_handle := \<lparr>handle = hwnd'\<rparr>\<rparr>;
                 w2 = w1\<lparr>m_is_open := (handle (m_window_handle w1) \<noteq> None)\<rparr>
             in (case vector_resize (m_framebuffer w2) (to_size_t (m_width w2 * m_height w2))
                       0xFF0000FF s3 of
                   Inl e \<Rightarrow> (Inl e, s3)
                 | Inr fb \<Rightarrow>
                     (let hdr = (bmiHeader (m_bmi w2))
                            \<lparr>biSize := sizeof_BITMAPINFOHEADER,
                             biWidth := m_width w2,
                             biHeight := - m_height w2,
                             biPlanes := 1,
                             biBitCount := 32,
                             biCompression := BI_RGB\<rparr>;
                          bmi = (m_bmi w2)\<lparr>bmiHeader := hdr\<rparr>
                      in (Inr (w2\<lparr>m_framebuffer := fb, m_bmi := bmi\<rparr>), s3)))))"

definition Window_dtor :: "Window \<Rightarrow> world \<Rightarrow> world" where
  "Window_dtor w s =
     (if handle (m_window_handle w) \<noteq> None then DestroyWindow (handle (m_window_handle w)) s
      else s)"

text \<open>
  The loop of \<^verbatim>\<open>PollEvents\<close> runs while \<^verbatim>\<open>PeekMessage\<close> finds a message. Handling a
  message can put a new one on the queue (a \<^verbatim>\<open>WM_DESTROY\<close> for a window makes
  \<open>WindowProc\<close> post \<^verbatim>\<open>WM_QUIT\<close>), so the queue's length is no measure; the weight
  below is.
\<close>

definition posts_quit :: "MSG \<Rightarrow> bool" where
  "posts_quit m \<longleftrightarrow> hwnd m \<noteq> None \<and> message m = WM_DESTROY"

definition msg_weight :: "MSG \<Rightarrow> nat" where
  "msg_weight m = (if posts_quit m then 2 else 1)"

function PollEvents :: "Window \<Rightarrow> world \<Rightarrow> Window \<times> world" where
  "PollEvents w s =
     (case PeekMessage s of
        (None, s1) \<Rightarrow> (w, s1)
      | (Some msg, s1) \<Rightarrow>
          let w1 = (if message msg = WM_QUIT then w\<lparr>m_is_open := False\<rparr> else w);
              s2 = TranslateMessage msg s1;
              s3 = DispatchMessage msg s2
          in PollEvents w1 s3)"
  by pat_completeness auto

termination PollEvents
proof (relation "measure (\<lambda>(w, s). sum_list (map msg_weight (queue s)))")
  show "wf (measure (\<lambda>(w, s). sum_list (map msg_weight (queue s))))" by simp
next
  fix w :: Window and s y :: world and x x2 xa xb xc
  assume peek: "(x, y) = PeekMessage s" and some: "x = Some x2"
    and tr: "xb = TranslateMessage x2 y" and di: "xc = DispatchMessage x2 xb"
  from peek some have q: "queue s = x2 # queue y"
    by (auto simp: PeekMessage_def split: list.splits)
  from tr have qb: "queue xb = queue y"
    by (simp add: TranslateMessage_def emit_def)
  from di have
    "sum_list (map msg_weight (queue xc)) < msg_weight x2 + sum_list (map msg_weight (queue xb))"
    by (auto simp: DispatchMessage_def WindowProc_def PostQuitMessage_def DefWindowProc_def
        emit_def msg_weight_def posts_quit_def split: option.splits)
  with q qb show "((xa, xc), w, s) \<in> measure (\<lambda>(w, s). sum_list (map msg_weight (queue s)))"
    by simp
qed

definition IsOpen :: "Window \<Rightarrow> bool" where
  "IsOpen w = m_is_open w"

text \<open>\<^verbatim>\<open>GetTitle\<close> returns the reference it holds; the caller reads the string through it.\<close>

definition GetTitle :: "Window \<Rightarrow> string_ref" where
  "GetTitle w = m_title w"

definition GetWidth :: "Window \<Rightarrow> cint" where
  "GetWidth w = m_width w"

definition GetHeight :: "Window \<Rightarrow> cint" where
  "GetHeight w = m_height w"

text \<open>\<^verbatim>\<open>GetWindowHandle\<close> returns the address of the member; the model gives what it points to.\<close>

definition GetWindowHandle :: "Window \<Rightarrow> WindowHandle" where
  "GetWindowHandle w = m_window_handle w"

definition Draw :: "Window \<Rightarrow> world \<Rightarrow> Window \<times> world" where
  "Draw w s =
     (let (hdc, s1) = GetDC (handle (m_window_handle w)) s;
          s2 = StretchDIBits hdc 0 0 (m_width w) (m_height w) 0 0 (m_width w) (m_height w)
                 (m_framebuffer w) (m_bmi w) s1;
          s3 = ReleaseDC (handle (m_window_handle w)) hdc s2
      in (w, s3))"

subsection \<open>The factory\<close>

text \<open>
  \<^verbatim>\<open>IWindow::Create\<close> is compiled in one of two ways, by the macro \<^verbatim>\<open>WIN32\<close>. A
  \<^verbatim>\<open>WindowPtr\<close> is a shared pointer: \<open>None\<close> is \<^verbatim>\<open>nullptr\<close>. An exception of the
  constructor leaves \<^verbatim>\<open>MakeShared\<close> and the factory as it is.
\<close>

definition Create ::
  "bool \<Rightarrow> string_ref \<Rightarrow> cint \<Rightarrow> cint \<Rightarrow> world \<Rightarrow> (error + Window option) \<times> world" where
  "Create WIN32 title width height s =
     (if WIN32 then
        (case Window_ctor title width height s of
           (Inl e, s') \<Rightarrow> (Inl e, s')
         | (Inr w, s') \<Rightarrow> (Inr (Some w), s'))
      else (Inr None, s))"

subsection \<open>Sequences of calls on a surface\<close>

datatype call =
    Call_PollEvents | Call_IsOpen | Call_GetTitle | Call_GetWidth | Call_GetHeight
  | Call_GetWindowHandle | Call_Draw

datatype result =
    R_void | R_bool bool | R_string_ref string_ref | R_int cint | R_handle WindowHandle

fun invoke :: "call \<Rightarrow> Window \<Rightarrow> world \<Rightarrow> result \<times> Window \<times> world" where
  "invoke Call_PollEvents w s = (R_void, PollEvents w s)"
| "invoke Call_IsOpen w s = (R_bool (IsOpen w), w, s)"
| "invoke Call_GetTitle w s = (R_string_ref (GetTitle w), w, s)"
| "invoke Call_GetWidth w s = (R_int (GetWidth w), w, s)"
| "invoke Call_GetHeight w s = (R_int (GetHeight w), w, s)"
| "invoke Call_GetWindowHandle w s = (R_handle (GetWindowHandle w), w, s)"
| "invoke Call_Draw w s = (R_void, Draw w s)"

text \<open>
  What can happen to a surface after construction: the program calls one of its
  methods, or the platform places a message on the thread's queue.
\<close>

datatype step = Invoke call | Post MSG

fun step_exec :: "step \<Rightarrow> Window \<times> world \<Rightarrow> Window \<times> world" where
  "step_exec (Invoke c) (w, s) = snd (invoke c w s)"
| "step_exec (Post m) (w, s) = (w, s\<lparr>queue := queue s @ [m]\<rparr>)"

definition run :: "step list \<Rightarrow> Window \<times> world \<Rightarrow> Window \<times> world" where
  "run steps st = fold step_exec steps st"

subsection \<open>The runtime application\<close>

text \<open>
  The loop of \<^verbatim>\<open>main\<close> runs while the window is open, and can run for ever. Its
  model takes the messages that arrive before each iteration's \<^verbatim>\<open>PollEvents\<close>, one
  list per iteration, and says whether the loop ended within them.
\<close>

datatype outcome = Exited int | Still_running | Failed error

fun runtime_loop :: "MSG list list \<Rightarrow> Window \<Rightarrow> world \<Rightarrow> bool \<times> Window \<times> world" where
  "runtime_loop [] w s = (if IsOpen w then (False, w, s) else (True, w, s))"
| "runtime_loop (arrived # rest) w s =
     (if IsOpen w then
        (let (w1, s1) = PollEvents w (s\<lparr>queue := queue s @ arrived\<rparr>);
             (w2, s2) = Draw w1 s1
         in runtime_loop rest w2 s2)
      else (True, w, s))"

text \<open>
  \<^verbatim>\<open>IWindow::Create("Rasterizer", 800, 600)\<close> passes a temporary \<^verbatim>\<open>std::string\<close>, which
  lives at \<open>tmp\<close> until the end of the declaration of \<^verbatim>\<open>window\<close>.
\<close>

definition runtime_main :: "bool \<Rightarrow> string_ref \<Rightarrow> MSG list list \<Rightarrow> world \<Rightarrow> outcome \<times> world" where
  "runtime_main WIN32 tmp arrivals s0 =
     (let s1 = s0\<lparr>strings := (strings s0)(tmp \<mapsto> ''Rasterizer'')\<rparr>;
          (r, s2) = Create WIN32 tmp 800 600 s1;
          s3 = s2\<lparr>strings := (strings s2)(tmp := None)\<rparr>
      in case r of
           Inl e \<Rightarrow> (Failed e, s3)
         | Inr None \<Rightarrow> (Failed Null_dereference, s3)
         | Inr (Some window) \<Rightarrow>
             (case runtime_loop arrivals window s3 of
                (False, w', s4) \<Rightarrow> (Still_running, s4)
              | (True, w', s4) \<Rightarrow> (Exited 0, Window_dtor w' s4)))"

text \<open>Reading the platform calls back from a trace.\<close>

fun blits :: "event list \<Rightarrow> u32 list list" where
  "blits [] = []"
| "blits (E_StretchDIBits hdc dst src lpBits lpbmi # es) = lpBits # blits es"
| "blits (e # es) = blits es"

fun dispatched :: "event list \<Rightarrow> MSG list" where
  "dispatched [] = []"
| "dispatched (E_DispatchMessage msg # es) = msg # dispatched es"
| "dispatched (e # es) = dispatched es"

fun defaulted :: "event list \<Rightarrow> (HWND \<times> UINT \<times> nat \<times> nat) list" where
  "defaulted [] = []"
| "defaulted (E_DefWindowProc h uMsg wp lp # es) = (h, uMsg, wp, lp) # defaulted es"
| "defaulted (e # es) = defaulted es"

fun quits_posted :: "event list \<Rightarrow> nat list" where
  "quits_posted [] = []"
| "quits_posted (E_PostQuitMessage nExitCode # es) = nExitCode # quits_posted es"
| "quits_posted (e # es) = quits_posted es"

fun destroyed :: "event list \<Rightarrow> HWND list" where
  "destroyed [] = []"
| "destroyed (E_DestroyWindow h # es) = h # destroyed es"
| "destroyed (e # es) = destroyed es"

definition quit_msg :: MSG where
  "quit_msg = \<lparr>hwnd = None, message = WM_QUIT, wParam = 0, lParam = 0\<rparr>"

text \<open>
  The messages that close a surface once polled: \<^verbatim>\<open>WM_QUIT\<close> itself, and the
  \<^verbatim>\<open>WM_DESTROY\<close> of a window, which the window procedure turns into \<^verbatim>\<open>WM_QUIT\<close>.
\<close>

definition closes :: "MSG \<Rightarrow> bool" where
  "closes m \<longleftrightarrow> message m = WM_QUIT \<or> posts_quit m"

text \<open>What the next call of \<^verbatim>\<open>CreateWindowEx\<close> returns.\<close>

definition next_hwnd :: "world \<Rightarrow> HWND" where
  "next_hwnd s = (case hwnd_supply s of [] \<Rightarrow> None | r # rs \<Rightarrow> r)"

text \<open>The members no method writes after construction.\<close>

definition fixed_part ::
  "Window \<Rightarrow> string_ref \<times> cint \<times> cint \<times> WindowHandle \<times> u32 list \<times> BITMAPINFO" where
  "fixed_part w =
     (m_title w, m_width w, m_height w, m_window_handle w, m_framebuffer w, m_bmi w)"

text \<open>
  A world for the scenarios: the caller's string \<^verbatim>\<open>"Test"\<close> lives at address 0, the
  platform grants one window, no message is pending, and a million pixels can be
  allocated.
\<close>

definition test_world :: world where
  "test_world =
     \<lparr>strings = [0 \<mapsto> ''Test''], queue = [], hwnd_supply = [Some 1], heap_limit = 1000000,
      trace = []\<rparr>"

section \<open>Properties\<close>

subsection \<open>Polling and drawing\<close>

declare PollEvents.simps [simp del]

lemma blits_append: "blits (xs @ ys) = blits xs @ blits ys"
  by (induction xs rule: blits.induct) simp_all

lemma dispatched_append: "dispatched (xs @ ys) = dispatched xs @ dispatched ys"
  by (induction xs rule: dispatched.induct) simp_all

lemma destroyed_append: "destroyed (xs @ ys) = destroyed xs @ destroyed ys"
  by (induction xs rule: destroyed.induct) simp_all

lemma PollEvents_empty: "queue s = [] \<Longrightarrow> PollEvents w s = (w, s)"
  by (subst PollEvents.simps) (simp add: PeekMessage_def)

lemma PollEvents_message:
  "queue s = m # ms \<Longrightarrow>
   PollEvents w s =
     PollEvents (if message m = WM_QUIT then w\<lparr>m_is_open := False\<rparr> else w)
       (DispatchMessage m (TranslateMessage m (s\<lparr>queue := ms\<rparr>)))"
  by (subst PollEvents.simps) (simp add: PeekMessage_def)

text \<open>What handling one message does to the world.\<close>

lemma handled_queue:
  "queue (DispatchMessage m (TranslateMessage m s)) =
     queue s @ (if posts_quit m then [quit_msg] else [])"
  by (simp add: DispatchMessage_def TranslateMessage_def WindowProc_def PostQuitMessage_def
      DefWindowProc_def emit_def posts_quit_def quit_msg_def split: option.splits)

lemma handled_trace:
  "dispatched (trace (DispatchMessage m (TranslateMessage m s))) = dispatched (trace s) @ [m]"
  "blits (trace (DispatchMessage m (TranslateMessage m s))) = blits (trace s)"
  "destroyed (trace (DispatchMessage m (TranslateMessage m s))) = destroyed (trace s)"
  by (simp_all add: DispatchMessage_def TranslateMessage_def WindowProc_def PostQuitMessage_def
      DefWindowProc_def emit_def dispatched_append blits_append destroyed_append
      split: option.splits)

lemma handled_rest:
  "strings (DispatchMessage m (TranslateMessage m s)) = strings s"
  "hwnd_supply (DispatchMessage m (TranslateMessage m s)) = hwnd_supply s"
  "heap_limit (DispatchMessage m (TranslateMessage m s)) = heap_limit s"
  by (simp_all add: DispatchMessage_def TranslateMessage_def WindowProc_def PostQuitMessage_def
      DefWindowProc_def emit_def split: option.splits)

lemma PollEvents_window:
  "fst (PollEvents w s) = w\<lparr>m_is_open := m_is_open w \<and> \<not> (\<exists>m \<in> set (queue s). closes m)\<rparr>"
proof (induction w s rule: PollEvents.induct)
  case (1 w s)
  show ?case
  proof (cases "queue s")
    case Nil
    then show ?thesis by (simp add: PollEvents_empty)
  next
    case (Cons m ms)
    let ?w1 = "if message m = WM_QUIT then w\<lparr>m_is_open := False\<rparr> else w"
    let ?s3 = "DispatchMessage m (TranslateMessage m (s\<lparr>queue := ms\<rparr>))"
    have peek: "PeekMessage s = (Some m, s\<lparr>queue := ms\<rparr>)"
      using Cons by (simp add: PeekMessage_def)
    have ih: "fst (PollEvents ?w1 ?s3) =
        ?w1\<lparr>m_is_open := m_is_open ?w1 \<and> \<not> (\<exists>m \<in> set (queue ?s3). closes m)\<rparr>"
      by (rule "1.IH" [OF peek [symmetric] refl refl refl refl])
    have q3: "queue ?s3 = ms @ (if posts_quit m then [quit_msg] else [])"
      by (simp add: handled_queue)
    have cq: "closes quit_msg" by (simp add: closes_def quit_msg_def)
    have ex3: "(\<exists>m' \<in> set (queue ?s3). closes m') \<longleftrightarrow>
        posts_quit m \<or> (\<exists>m' \<in> set ms. closes m')"
      unfolding q3 using cq by auto
    have exs: "(\<exists>m' \<in> set (queue s). closes m') \<longleftrightarrow>
        message m = WM_QUIT \<or> posts_quit m \<or> (\<exists>m' \<in> set ms. closes m')"
      unfolding Cons by (auto simp: closes_def posts_quit_def)
    show ?thesis
      unfolding PollEvents_message [OF Cons] ih ex3 exs by simp
  qed
qed

lemma PollEvents_world:
  "queue (snd (PollEvents w s)) = [] \<and>
   strings (snd (PollEvents w s)) = strings s \<and>
   hwnd_supply (snd (PollEvents w s)) = hwnd_supply s \<and>
   heap_limit (snd (PollEvents w s)) = heap_limit s \<and>
   blits (trace (snd (PollEvents w s))) = blits (trace s) \<and>
   destroyed (trace (snd (PollEvents w s))) = destroyed (trace s) \<and>
   dispatched (trace (snd (PollEvents w s))) =
     dispatched (trace s) @ queue s @ replicate (length (filter posts_quit (queue s))) quit_msg"
proof (induction w s rule: PollEvents.induct)
  case (1 w s)
  show ?case
  proof (cases "queue s")
    case Nil
    then show ?thesis by (simp add: PollEvents_empty)
  next
    case (Cons m ms)
    let ?w1 = "if message m = WM_QUIT then w\<lparr>m_is_open := False\<rparr> else w"
    let ?s3 = "DispatchMessage m (TranslateMessage m (s\<lparr>queue := ms\<rparr>))"
    have peek: "PeekMessage s = (Some m, s\<lparr>queue := ms\<rparr>)"
      using Cons by (simp add: PeekMessage_def)
    note ih = "1.IH" [OF peek [symmetric] refl refl refl refl]
    have q3: "queue ?s3 = ms @ (if posts_quit m then [quit_msg] else [])"
      by (simp add: handled_queue)
    have nq: "\<not> posts_quit quit_msg" by (simp add: posts_quit_def quit_msg_def)
    have rep: "quit_msg # replicate n quit_msg = replicate n quit_msg @ [quit_msg]" for n
      by (simp add: replicate_append_same)
    show ?thesis
      unfolding PollEvents_message [OF Cons]
      using ih nq by (simp add: q3 handled_trace handled_rest Cons rep)
  qed
qed

lemma Draw_window: "fst (Draw w s) = w"
  by (simp add: Draw_def GetDC_def)

lemma Draw_world:
  "queue (snd (Draw w s)) = queue s"
  "strings (snd (Draw w s)) = strings s"
  "blits (trace (snd (Draw w s))) = blits (trace s) @ [m_framebuffer w]"
  "destroyed (trace (snd (Draw w s))) = destroyed (trace s)"
  "dispatched (trace (snd (Draw w s))) = dispatched (trace s)"
  by (simp_all add: Draw_def GetDC_def StretchDIBits_def ReleaseDC_def emit_def blits_append
      destroyed_append dispatched_append)

lemma invoke_fixed: "fixed_part (fst (snd (invoke c w s))) = fixed_part w"
  by (cases c) (simp_all add: PollEvents_window Draw_window fixed_part_def)

lemma invoke_strings: "strings (snd (snd (invoke c w s))) = strings s"
  by (cases c) (simp_all add: PollEvents_world Draw_world)

lemma invoke_closed: "\<not> m_is_open w \<Longrightarrow> \<not> m_is_open (fst (snd (invoke c w s)))"
  by (cases c) (simp_all add: PollEvents_window Draw_window)

lemma step_exec_fixed: "fixed_part (fst (step_exec x st)) = fixed_part (fst st)"
  by (cases x; cases st) (simp_all add: invoke_fixed)

lemma step_exec_strings: "strings (snd (step_exec x st)) = strings (snd st)"
  by (cases x; cases st) (simp_all add: invoke_strings)

lemma step_exec_closed: "\<not> m_is_open (fst st) \<Longrightarrow> \<not> m_is_open (fst (step_exec x st))"
  by (cases x; cases st) (simp_all add: invoke_closed)

lemma run_fixed: "fixed_part (fst (run steps st)) = fixed_part (fst st)"
  unfolding run_def by (induction steps arbitrary: st) (simp_all add: step_exec_fixed)

lemma run_strings: "strings (snd (run steps st)) = strings (snd st)"
  unfolding run_def by (induction steps arbitrary: st) (simp_all add: step_exec_strings)

lemma run_closed: "\<not> m_is_open (fst st) \<Longrightarrow> \<not> m_is_open (fst (run steps st))"
  unfolding run_def by (induction steps arbitrary: st) (simp_all add: step_exec_closed)

subsection \<open>The constructor and the factory\<close>

lemma to_size_t_nonneg: "0 \<le> sint i \<Longrightarrow> to_size_t i = nat (sint i)"
proof -
  assume a: "0 \<le> sint i"
  have "sint i < 2 ^ 31" using sint_lt [of i] by simp
  then have "sint i < 2 ^ 64" by simp
  with a show ?thesis by (simp add: to_size_t_def)
qed

lemma to_size_t_neg: "sint i < 0 \<Longrightarrow> vector_max_size < to_size_t i"
proof -
  assume a: "sint i < 0"
  have b: "- (2 ^ 31) \<le> sint i" using sint_ge [of i] by simp
  have "sint i mod 2 ^ 64 = (sint i + 2 ^ 64) mod 2 ^ 64"
    by (simp only: mod_add_self2)
  also have "\<dots> = sint i + 2 ^ 64"
    by (rule mod_pos_pos_trivial) (use a b in simp_all)
  finally have "sint i mod 2 ^ 64 = sint i + 2 ^ 64" .
  then have "to_size_t i = nat (sint i + 2 ^ 64)" by (simp add: to_size_t_def)
  with b show ?thesis by (simp add: vector_max_size_def)
qed

lemma sint_mul_in_range: "int_in_range (sint a * sint b) \<Longrightarrow> sint (a * b) = sint a * sint (b :: cint)"
  by (simp add: int_in_range_def sint_word_ariths signed_take_bit_int_eq_self)

lemma sint_neg_not_min: "sint a \<noteq> - (2 ^ 31) \<Longrightarrow> sint (- a) = - sint (a :: cint)"
proof -
  assume a: "sint a \<noteq> - (2 ^ 31)"
  have "- (2 ^ 31) \<le> sint a" "sint a < 2 ^ 31"
    using sint_ge [of a] sint_lt [of a] by simp_all
  with a show ?thesis
    by (simp add: sint_word_ariths signed_take_bit_int_eq_self)
qed

lemma Window_ctor_closed:
  assumes "strings s title = Some t"
  shows "Window_ctor title W H s =
    ((if vector_max_size < to_size_t (W * H) then Inl Length_error
      else if heap_limit s < to_size_t (W * H) then Inl Bad_alloc
      else Inr \<lparr>m_title = title, m_width = W, m_height = H, m_is_open = (next_hwnd s \<noteq> None),
             m_window_handle = \<lparr>handle = next_hwnd s\<rparr>,
             m_framebuffer = replicate (to_size_t (W * H)) 0xFF0000FF,
             m_bmi = \<lparr>bmiHeader = \<lparr>biSize = sizeof_BITMAPINFOHEADER, biWidth = W, biHeight = - H,
                biPlanes = 1, biBitCount = 32, biCompression = BI_RGB, biSizeImage = 0,
                biXPelsPerMeter = 0, biYPelsPerMeter = 0, biClrUsed = 0, biClrImportant = 0\<rparr>,
              bmiColors = 0\<rparr>\<rparr>),
     s\<lparr>hwnd_supply := tl (hwnd_supply s),
       trace := trace s @ [E_RegisterClass, E_CreateWindowEx t W H (next_hwnd s),
                  E_ShowWindow (next_hwnd s)]\<rparr>)"
  using assms
  by (simp add: Window_ctor_def RegisterClass_def CreateWindowEx_def ShowWindow_def emit_def
      vector_resize_def next_hwnd_def zero_BITMAPINFO_def Let_def
      split: list.splits)

lemma Window_ctor_dangling:
  "strings s title = None \<Longrightarrow> fst (Window_ctor title W H s) = Inl Invalid_reference"
  by (simp add: Window_ctor_def RegisterClass_def emit_def Let_def)

lemma completes_conditions:
  assumes "0 \<le> sint W * sint H" and "sint W * sint H < 2 ^ 31"
  shows "int_in_range (sint W * sint H)"
    and "to_size_t (W * H) = nat (sint W * sint H)"
    and "\<not> vector_max_size < to_size_t (W * H)"
    and "sint (W * H) = sint W * sint H"
proof -
  show r: "int_in_range (sint W * sint H)"
    using assms by (simp add: int_in_range_def)
  show p: "sint (W * H) = sint W * sint H"
    using r by (rule sint_mul_in_range)
  then show e: "to_size_t (W * H) = nat (sint W * sint H)"
    using assms(1) by (simp add: to_size_t_nonneg)
  show "\<not> vector_max_size < to_size_t (W * H)"
    unfolding e using assms(2) by (simp add: vector_max_size_def)
qed

text \<open>The constructor completes exactly when the wrapped product is not negative and can be allocated.\<close>

lemma Window_ctor_completes_wrapped:
  assumes "strings s title = Some t"
    and "0 \<le> sint (W * H)" and "nat (sint (W * H)) \<le> heap_limit s"
  shows "\<exists>win s'. Window_ctor title W H s = (Inr win, s')"
proof -
  have e: "to_size_t (W * H) = nat (sint (W * H))"
    using assms(2) by (rule to_size_t_nonneg)
  have "sint (W * H) < 2 ^ 31" using sint_lt [of "W * H"] by simp
  then have "\<not> vector_max_size < to_size_t (W * H)"
    unfolding e by (simp add: vector_max_size_def)
  then show ?thesis
    using assms(3) e by (simp add: Window_ctor_closed [OF assms(1)])
qed

lemma Window_ctor_completes:
  assumes "strings s title = Some t"
    and "0 \<le> sint W * sint H" and "sint W * sint H < 2 ^ 31"
    and "nat (sint W * sint H) \<le> heap_limit s"
  shows "\<exists>win s'. Window_ctor title W H s = (Inr win, s')"
  using Window_ctor_completes_wrapped [OF assms(1), of W H]
    completes_conditions(4) [OF assms(2,3)] assms(2,4)
  by simp

lemma Window_ctor_Inr_D:
  assumes "Window_ctor title W H s = (Inr win, s')"
  shows "\<exists>t. strings s title = Some t \<and>
           trace s' = trace s @ [E_RegisterClass, E_CreateWindowEx t W H (next_hwnd s),
                         E_ShowWindow (next_hwnd s)]"
    and "0 \<le> sint (W * H) \<and> nat (sint (W * H)) \<le> heap_limit s"
    and "m_title win = title \<and> m_width win = W \<and> m_height win = H"
    and "m_window_handle win = \<lparr>handle = next_hwnd s\<rparr> \<and> m_is_open win = (next_hwnd s \<noteq> None)"
    and "m_framebuffer win = replicate (nat (sint (W * H))) 0xFF0000FF"
    and "m_bmi win =
           \<lparr>bmiHeader = \<lparr>biSize = sizeof_BITMAPINFOHEADER, biWidth = W, biHeight = - H,
              biPlanes = 1, biBitCount = 32, biCompression = BI_RGB, biSizeImage = 0,
              biXPelsPerMeter = 0, biYPelsPerMeter = 0, biClrUsed = 0, biClrImportant = 0\<rparr>,
            bmiColors = 0\<rparr>"
    and "int_in_range (sint W * sint H) \<longrightarrow>
           m_framebuffer win = replicate (nat (sint W * sint H)) 0xFF0000FF"
    and "strings s' = strings s \<and> queue s' = queue s \<and> heap_limit s' = heap_limit s \<and>
         hwnd_supply s' = tl (hwnd_supply s)"
proof -
  obtain t where t: "strings s title = Some t"
    using assms Window_ctor_dangling [of s title W H] by (cases "strings s title") auto
  note c = assms [unfolded Window_ctor_closed [OF t]]
  from c have m: "\<not> vector_max_size < to_size_t (W * H)"
    and h: "\<not> heap_limit s < to_size_t (W * H)"
    by (auto split: if_splits)
  have nonneg: "0 \<le> sint (W * H)"
    using m to_size_t_neg [of "W * H"] by (cases "sint (W * H) < 0") auto
  have sz: "to_size_t (W * H) = nat (sint (W * H))"
    using nonneg by (rule to_size_t_nonneg)
  show "\<exists>t. strings s title = Some t \<and>
           trace s' = trace s @ [E_RegisterClass, E_CreateWindowEx t W H (next_hwnd s),
                         E_ShowWindow (next_hwnd s)]"
    using c t by (auto split: if_splits)
  show "0 \<le> sint (W * H) \<and> nat (sint (W * H)) \<le> heap_limit s"
    using nonneg h sz by simp
  show "m_title win = title \<and> m_width win = W \<and> m_height win = H"
    using c by (auto split: if_splits)
  show "m_window_handle win = \<lparr>handle = next_hwnd s\<rparr> \<and> m_is_open win = (next_hwnd s \<noteq> None)"
    using c by (auto split: if_splits)
  show f: "m_framebuffer win = replicate (nat (sint (W * H))) 0xFF0000FF"
    using c sz by (auto split: if_splits)
  show "m_bmi win =
           \<lparr>bmiHeader = \<lparr>biSize = sizeof_BITMAPINFOHEADER, biWidth = W, biHeight = - H,
              biPlanes = 1, biBitCount = 32, biCompression = BI_RGB, biSizeImage = 0,
              biXPelsPerMeter = 0, biYPelsPerMeter = 0, biClrUsed = 0, biClrImportant = 0\<rparr>,
            bmiColors = 0\<rparr>"
    using c by (auto split: if_splits)
  show "int_in_range (sint W * sint H) \<longrightarrow>
           m_framebuffer win = replicate (nat (sint W * sint H)) 0xFF0000FF"
    using f by (simp add: sint_mul_in_range)
  show "strings s' = strings s \<and> queue s' = queue s \<and> heap_limit s' = heap_limit s \<and>
         hwnd_supply s' = tl (hwnd_supply s)"
    using c by (auto split: if_splits)
qed

text \<open>
  Two runs where the unchecked arithmetic wraps: the product of 65537 by 65537 is
  131073 as an \<^verbatim>\<open>int\<close>, and the negation of the least \<^verbatim>\<open>int\<close> is itself.
\<close>

lemma Window_ctor_product_wraps:
  "Window_ctor 0 65537 65537 test_world =
     (Inr \<lparr>m_title = 0, m_width = 65537, m_height = 65537, m_is_open = True,
           m_window_handle = \<lparr>handle = Some 1\<rparr>,
           m_framebuffer = replicate 131073 0xFF0000FF,
           m_bmi = \<lparr>bmiHeader = \<lparr>biSize = 40, biWidth = 65537, biHeight = - 65537,
              biPlanes = 1, biBitCount = 32, biCompression = 0, biSizeImage = 0,
              biXPelsPerMeter = 0, biYPelsPerMeter = 0, biClrUsed = 0, biClrImportant = 0\<rparr>,
            bmiColors = 0\<rparr>\<rparr>,
      test_world\<lparr>hwnd_supply := [],
        trace := [E_RegisterClass, E_CreateWindowEx ''Test'' 65537 65537 (Some 1),
                  E_ShowWindow (Some 1)]\<rparr>)"
proof -
  have t: "strings test_world 0 = Some ''Test''" by (simp add: test_world_def)
  have sz: "to_size_t (65537 * 65537) = 131073" by (simp add: to_size_t_def)
  show ?thesis
    unfolding Window_ctor_closed [OF t] sz
    by (simp add: test_world_def vector_max_size_def next_hwnd_def
        sizeof_BITMAPINFOHEADER_def BI_RGB_def)
qed

lemma Window_ctor_height_INT_MIN:
  "\<not> isl (fst (Window_ctor 0 0 (- 2147483648) test_world)) \<and>
   sint (biHeight (bmiHeader (m_bmi (projr (fst (Window_ctor 0 0 (- 2147483648) test_world)))))) =
     - 2147483648"
proof -
  have t: "strings test_world 0 = Some ''Test''" by (simp add: test_world_def)
  have sz: "to_size_t (0 * - 2147483648) = 0" by (simp add: to_size_t_def)
  show ?thesis
    unfolding Window_ctor_closed [OF t] sz
    by (simp add: vector_max_size_def)
qed

lemma Create_True:
  "Create True title W H s = (Inr r, s') \<longleftrightarrow>
     (\<exists>win. r = Some win \<and> Window_ctor title W H s = (Inr win, s'))"
  by (auto simp: Create_def split: prod.splits sum.splits)

lemma Create_True_eq:
  "Create True title W H s =
     (map_sum id Some (fst (Window_ctor title W H s)), snd (Window_ctor title W H s))"
  by (simp add: Create_def split: prod.splits sum.splits)

subsection \<open>The calls made while polling, and the runtime loop\<close>

lemma defaulted_append: "defaulted (xs @ ys) = defaulted xs @ defaulted ys"
  by (induction xs rule: defaulted.induct) simp_all

lemma quits_posted_append: "quits_posted (xs @ ys) = quits_posted xs @ quits_posted ys"
  by (induction xs rule: quits_posted.induct) simp_all

lemma handled_calls:
  "defaulted (trace (DispatchMessage m (TranslateMessage m s))) =
     defaulted (trace s) @
       (if hwnd m \<noteq> None \<and> message m \<noteq> WM_DESTROY
        then [(hwnd m, message m, wParam m, lParam m)] else [])"
  "quits_posted (trace (DispatchMessage m (TranslateMessage m s))) =
     quits_posted (trace s) @ (if posts_quit m then [0] else [])"
  by (auto simp: DispatchMessage_def TranslateMessage_def WindowProc_def PostQuitMessage_def
      DefWindowProc_def emit_def defaulted_append quits_posted_append posts_quit_def
      split: option.splits)

lemma PollEvents_calls:
  "defaulted (trace (snd (PollEvents w s))) =
     defaulted (trace s) @
       map (\<lambda>m. (hwnd m, message m, wParam m, lParam m))
         (filter (\<lambda>m. hwnd m \<noteq> None \<and> message m \<noteq> WM_DESTROY) (queue s)) \<and>
   quits_posted (trace (snd (PollEvents w s))) =
     quits_posted (trace s) @ replicate (length (filter posts_quit (queue s))) 0"
proof (induction w s rule: PollEvents.induct)
  case (1 w s)
  show ?case
  proof (cases "queue s")
    case Nil
    then show ?thesis by (simp add: PollEvents_empty)
  next
    case (Cons m ms)
    have peek: "PeekMessage s = (Some m, s\<lparr>queue := ms\<rparr>)"
      using Cons by (simp add: PeekMessage_def)
    note ih = "1.IH" [OF peek [symmetric] refl refl refl refl]
    have nq: "\<not> posts_quit quit_msg" "hwnd quit_msg = None"
      by (simp_all add: posts_quit_def quit_msg_def)
    have rep: "(0::nat) # replicate n 0 = replicate n 0 @ [0]" for n
      by (simp add: replicate_append_same)
    show ?thesis
      unfolding PollEvents_message [OF Cons]
      using ih nq by (simp add: handled_queue handled_calls Cons rep)
  qed
qed

lemma runtime_loop_effect:
  "m_framebuffer (fst (snd (runtime_loop arrivals w s))) = m_framebuffer w \<and>
   (\<exists>k \<le> length arrivals.
      blits (trace (snd (snd (runtime_loop arrivals w s)))) =
        blits (trace s) @ replicate k (m_framebuffer w))"
proof (induction arrivals arbitrary: w s)
  case Nil
  show ?case by simp
next
  case (Cons arrived rest)
  show ?case
  proof (cases "IsOpen w")
    case False
    then show ?thesis by simp
  next
    case True
    let ?s0 = "s\<lparr>queue := queue s @ arrived\<rparr>"
    obtain w1 s1 where p: "PollEvents w ?s0 = (w1, s1)" by (cases "PollEvents w ?s0")
    obtain w2 s2 where d: "Draw w1 s1 = (w2, s2)" by (cases "Draw w1 s1")
    have f1: "m_framebuffer w1 = m_framebuffer w"
      using PollEvents_window [of w ?s0] p by simp
    have b1: "blits (trace s1) = blits (trace s)"
      using PollEvents_world [of w ?s0] p by simp
    have w2: "w2 = w1" using Draw_window [of w1 s1] d by simp
    have b2: "blits (trace s2) = blits (trace s) @ [m_framebuffer w]"
      using Draw_world(3) [of w1 s1] d b1 f1 by simp
    have step: "runtime_loop (arrived # rest) w s = runtime_loop rest w2 s2"
      using True p d by simp
    from Cons.IH [of w2 s2] obtain k where k: "k \<le> length rest"
      and bk: "blits (trace (snd (snd (runtime_loop rest w2 s2)))) =
        blits (trace s2) @ replicate k (m_framebuffer w2)"
      and fk: "m_framebuffer (fst (snd (runtime_loop rest w2 s2))) = m_framebuffer w2"
      by blast
    have "blits (trace (snd (snd (runtime_loop rest w2 s2)))) =
        blits (trace s) @ replicate (Suc k) (m_framebuffer w)"
      using bk b2 w2 f1 by simp
    with k fk w2 f1 show ?thesis
      unfolding step by (intro conjI exI [of _ "Suc k"]) simp_all
  qed
qed

lemma Create_trace:
  assumes "strings s title = Some t"
  shows "trace (snd (Create True title W H s)) =
           trace s @ [E_RegisterClass, E_CreateWindowEx t W H (next_hwnd s),
             E_ShowWindow (next_hwnd s)]"
  by (simp add: Create_True_eq Window_ctor_closed [OF assms])

lemma Window_dtor_blits: "blits (trace (Window_dtor w s)) = blits (trace s)"
  by (simp add: Window_dtor_def DestroyWindow_def emit_def blits_append)

subsection \<open>The runtime on a concrete run\<close>

text \<open>
  The title of the runtime's window: the constructor stores a reference to the
  temporary string made from \<^verbatim>\<open>"Rasterizer"\<close>. It reads that string when \<^verbatim>\<open>Create\<close>
  returns, and no string once the declaration of \<^verbatim>\<open>window\<close> has ended. The runtime
  never calls \<^verbatim>\<open>GetTitle\<close>. The second lemma runs \<^verbatim>\<open>main\<close> on a platform where nothing
  arrives before the first poll and \<^verbatim>\<open>WM_QUIT\<close> before the second.
\<close>

lemma runtime_title_dangles:
  assumes "Create True tmp 800 600 (s0\<lparr>strings := (strings s0)(tmp \<mapsto> ''Rasterizer'')\<rparr>) =
             (Inr (Some window), s2)"
  shows "strings s2 (GetTitle window) = Some ''Rasterizer'' \<and>
         strings (s2\<lparr>strings := (strings s2)(tmp := None)\<rparr>) (GetTitle window) = None"
proof -
  from assms have c: "Window_ctor tmp 800 600 (s0\<lparr>strings := (strings s0)(tmp \<mapsto> ''Rasterizer'')\<rparr>) =
      (Inr window, s2)"
    by (simp add: Create_True)
  show ?thesis
    using Window_ctor_Inr_D(3,8) [OF c] by (simp add: GetTitle_def)
qed

lemma runtime_main_example:
  "fst (runtime_main True 7 [[], [quit_msg]] test_world) = Exited 0 \<and>
   blits (trace (snd (runtime_main True 7 [[], [quit_msg]] test_world))) =
     [replicate 480000 0xFF0000FF, replicate 480000 0xFF0000FF] \<and>
   destroyed (trace (snd (runtime_main True 7 [[], [quit_msg]] test_world))) = [Some 1]"
proof -
  let ?s1 = "test_world\<lparr>strings := (strings test_world)(7 \<mapsto> ''Rasterizer'')\<rparr>"
  have t: "strings ?s1 7 = Some ''Rasterizer''" by simp
  obtain win s2 where c: "Window_ctor 7 800 600 ?s1 = (Inr win, s2)"
    using Window_ctor_completes [OF t, of 800 600] by (auto simp: test_world_def)
  note d = Window_ctor_Inr_D [OF c]
  have win: "m_is_open win" "handle (m_window_handle win) = Some 1"
    "m_framebuffer win = replicate 480000 0xFF0000FF"
    using d(4,5) by (simp_all add: next_hwnd_def test_world_def)
  have s2: "queue s2 = []" "blits (trace s2) = []" "destroyed (trace s2) = []"
    using d(1,8) by (auto simp: test_world_def)
  have q: "message quit_msg = WM_QUIT" "hwnd quit_msg = None"
    by (simp_all add: quit_msg_def)
  have cr: "Create True 7 800 600 ?s1 = (Inr (Some win), s2)"
    using c by (simp add: Create_True)
  show ?thesis
    by (simp add: runtime_main_def cr win s2 q IsOpen_def
        PollEvents_empty PollEvents_message Draw_def GetDC_def StretchDIBits_def ReleaseDC_def
        DispatchMessage_def TranslateMessage_def emit_def Window_dtor_def DestroyWindow_def
        blits_append destroyed_append)
qed

section \<open>The claims\<close>

text \<open>
  C1. A call of the factory with a positive width and a positive height, for which
  the platform creates the native window: every surface it returns has the width,
  height and title of the call and is open. The title is the caller's string itself:
  \<open>GetTitle\<close> gives back the reference passed in, which reads the same string when
  the factory returns. A surface is returned whenever the pixel count fits an \<^verbatim>\<open>int\<close>
  and the pixels can be allocated (otherwise the constructor does not complete).
\<close>

theorem create_surface_ready:
  assumes "strings s title = Some t" and "next_hwnd s \<noteq> None"
    and "0 < sint W" and "0 < sint H"
  shows "(\<forall>win s'. Create True title W H s = (Inr (Some win), s') \<longrightarrow>
            GetWidth win = W \<and> GetHeight win = H \<and>
            GetTitle win = title \<and> strings s' (GetTitle win) = Some t \<and>
            IsOpen win) \<and>
         (sint W * sint H < 2 ^ 31 \<and> nat (sint W * sint H) \<le> heap_limit s \<longrightarrow>
            (\<exists>win s'. Create True title W H s = (Inr (Some win), s')))"
proof (rule conjI)
  show "\<forall>win s'. Create True title W H s = (Inr (Some win), s') \<longrightarrow>
      GetWidth win = W \<and> GetHeight win = H \<and>
      GetTitle win = title \<and> strings s' (GetTitle win) = Some t \<and> IsOpen win"
  proof (intro allI impI)
    fix win s'
    assume "Create True title W H s = (Inr (Some win), s')"
    then have c: "Window_ctor title W H s = (Inr win, s')"
      by (simp add: Create_True)
    have "GetWidth win = W \<and> GetHeight win = H \<and> GetTitle win = title"
      using Window_ctor_Inr_D(3) [OF c] by (simp add: GetWidth_def GetHeight_def GetTitle_def)
    moreover have "strings s' (GetTitle win) = Some t"
      using Window_ctor_Inr_D(3,8) [OF c] assms(1) by (simp add: GetTitle_def)
    moreover have "IsOpen win"
      using Window_ctor_Inr_D(4) [OF c] assms(2) by (simp add: IsOpen_def)
    ultimately show "GetWidth win = W \<and> GetHeight win = H \<and>
        GetTitle win = title \<and> strings s' (GetTitle win) = Some t \<and> IsOpen win"
      by simp
  qed
next
  show "sint W * sint H < 2 ^ 31 \<and> nat (sint W * sint H) \<le> heap_limit s \<longrightarrow>
      (\<exists>win s'. Create True title W H s = (Inr (Some win), s'))"
  proof
    assume r: "sint W * sint H < 2 ^ 31 \<and> nat (sint W * sint H) \<le> heap_limit s"
    have pos: "0 \<le> sint W * sint H" using assms(3,4) by simp
    obtain win s' where "Window_ctor title W H s = (Inr win, s')"
      using Window_ctor_completes [OF assms(1) pos] r by blast
    then show "\<exists>win s'. Create True title W H s = (Inr (Some win), s')"
      by (auto simp: Create_True)
  qed
qed

text \<open>The scenario of the specification: \<^verbatim>\<open>("Test", 800, 600)\<close>.\<close>

theorem create_surface_ready_witness:
  "\<exists>win s'. Create True 0 800 600 test_world = (Inr (Some win), s') \<and>
     GetWidth win = 800 \<and> GetHeight win = 600 \<and>
     GetTitle win = 0 \<and> strings s' (GetTitle win) = Some ''Test'' \<and> IsOpen win"
proof -
  have h: "strings test_world 0 = Some ''Test''" "next_hwnd test_world \<noteq> None"
    "0 < sint (800 :: cint)" "0 < sint (600 :: cint)"
    by (simp_all add: test_world_def next_hwnd_def)
  have r: "sint (800 :: cint) * sint (600 :: cint) < 2 ^ 31 \<and>
      nat (sint (800 :: cint) * sint (600 :: cint)) \<le> heap_limit test_world"
    by (simp add: test_world_def)
  from create_surface_ready [OF h] r show ?thesis by blast
qed

text \<open>
  C2 (corrected). Right after construction every entry of the framebuffer is the
  fill colour \<^verbatim>\<open>0xFF0000FF\<close>, and the number of entries is the product the
  constructor computes, \<^verbatim>\<open>m_width * m_height\<close> as an \<^verbatim>\<open>int\<close>. That is exactly width
  times height whenever the product fits an \<^verbatim>\<open>int\<close>; for 800 by 600 it is 480000.
\<close>

theorem framebuffer_after_construction:
  assumes "Window_ctor title W H s = (Inr win, s')"
  shows "(\<forall>p \<in> set (m_framebuffer win). p = 0xFF0000FF) \<and>
         length (m_framebuffer win) = nat (sint (W * H)) \<and>
         (int_in_range (sint W * sint H) \<longrightarrow>
            length (m_framebuffer win) = nat (sint W * sint H)) \<and>
         (W = 800 \<and> H = 600 \<longrightarrow> length (m_framebuffer win) = 480000)"
  using Window_ctor_Inr_D(5,7) [OF assms] by auto

theorem framebuffer_after_construction_witness:
  "\<exists>win s'. Window_ctor 0 800 600 test_world = (Inr win, s') \<and>
     int_in_range (sint (800 :: cint) * sint (600 :: cint)) \<and>
     length (m_framebuffer win) = 480000 \<and>
     set (m_framebuffer win) = {0xFF0000FF}"
proof -
  obtain win s' where c: "Window_ctor 0 800 600 test_world = (Inr win, s')"
    using Window_ctor_completes [of test_world 0 "''Test''" 800 600]
    by (auto simp: test_world_def)
  have r: "int_in_range (sint (800 :: cint) * sint (600 :: cint))"
    by (simp add: int_in_range_def)
  from framebuffer_after_construction [OF c] have
    l: "length (m_framebuffer win) = 480000" and a: "\<forall>p \<in> set (m_framebuffer win). p = 0xFF0000FF"
    by simp_all
  from l have "m_framebuffer win \<noteq> []" by auto
  with a have "set (m_framebuffer win) = {0xFF0000FF}"
    by (cases "m_framebuffer win") auto
  with l c r show ?thesis by blast
qed

text \<open>
  Where the product does not fit, the count is not width times height: the surface
  for 65537 by 65537 is constructed, with 131073 entries.
\<close>

theorem framebuffer_product_wraps:
  "\<not> isl (fst (Window_ctor 0 65537 65537 test_world)) \<and>
   0 < sint (65537 :: cint) \<and>
   length (m_framebuffer (projr (fst (Window_ctor 0 65537 65537 test_world)))) = 131073 \<and>
   int (length (m_framebuffer (projr (fst (Window_ctor 0 65537 65537 test_world))))) \<noteq>
     sint (65537 :: cint) * sint (65537 :: cint)"
  by (simp add: Window_ctor_product_wraps)

text \<open>
  C3 (the code departs from the claim). When the platform refuses the window,
  \<^verbatim>\<open>CreateWindowEx\<close> returns \<^verbatim>\<open>NULL\<close>; the branch that tests for it is empty, so the
  constructor goes on, shows the null handle and completes. The factory returns a
  non-null pointer to a surface whose handle is null and which is not open.
\<close>

theorem failed_creation_returns_surface:
  "\<exists>win s'. Create True 0 800 600 (test_world\<lparr>hwnd_supply := []\<rparr>) = (Inr (Some win), s') \<and>
     handle (GetWindowHandle win) = None \<and> \<not> IsOpen win \<and>
     trace s' = [E_RegisterClass, E_CreateWindowEx ''Test'' 800 600 None, E_ShowWindow None]"
proof -
  let ?s = "test_world\<lparr>hwnd_supply := []\<rparr>"
  have n: "next_hwnd ?s = None" by (simp add: next_hwnd_def)
  obtain win s' where c: "Window_ctor 0 800 600 ?s = (Inr win, s')"
    using Window_ctor_completes [of ?s 0 "''Test''" 800 600]
    by (auto simp: test_world_def)
  have "Create True 0 800 600 ?s = (Inr (Some win), s')"
    using c by (simp add: Create_True)
  moreover have "handle (GetWindowHandle win) = None \<and> \<not> IsOpen win"
    using Window_ctor_Inr_D(4) [OF c] n by (simp add: GetWindowHandle_def IsOpen_def)
  moreover have "trace s' = [E_RegisterClass, E_CreateWindowEx ''Test'' 800 600 None, E_ShowWindow None]"
    using Window_ctor_Inr_D(1) [OF c] n by (simp add: test_world_def)
  ultimately show ?thesis by blast
qed

text \<open>
  C4. Once a closing message is on the queue (\<^verbatim>\<open>WM_QUIT\<close>, or a window's
  \<^verbatim>\<open>WM_DESTROY\<close>, which the window procedure turns into \<^verbatim>\<open>WM_QUIT\<close>), the next
  \<open>PollEvents\<close> leaves the surface closed; and a closed surface stays closed through
  every later sequence of method calls and message arrivals.
\<close>

theorem close_is_final:
  "((\<exists>m \<in> set (queue s). closes m) \<longrightarrow> \<not> IsOpen (fst (PollEvents w s))) \<and>
   (\<not> IsOpen (fst st) \<longrightarrow> \<not> IsOpen (fst (run steps st)))"
proof (intro conjI impI)
  assume "\<exists>m \<in> set (queue s). closes m"
  then show "\<not> IsOpen (fst (PollEvents w s))"
    by (simp add: IsOpen_def PollEvents_window)
next
  assume "\<not> IsOpen (fst st)"
  then show "\<not> IsOpen (fst (run steps st))"
    using run_closed [of st steps] by (simp add: IsOpen_def)
qed

text \<open>
  A surface is constructed and is open; \<^verbatim>\<open>WM_QUIT\<close> is pending; one poll closes it, and
  a later message, poll, draw and query leave it closed.
\<close>

theorem close_is_final_witness:
  "\<exists>win s'. Window_ctor 0 800 600 test_world = (Inr win, s') \<and> IsOpen win \<and>
     closes quit_msg \<and>
     \<not> IsOpen (fst (PollEvents win (s'\<lparr>queue := [quit_msg]\<rparr>))) \<and>
     \<not> IsOpen (fst (run [Post \<lparr>hwnd = Some 1, message = 15, wParam = 0, lParam = 0\<rparr>,
          Invoke Call_PollEvents, Invoke Call_Draw, Invoke Call_IsOpen]
          (PollEvents win (s'\<lparr>queue := [quit_msg]\<rparr>))))"
proof -
  obtain win s' where c: "Window_ctor 0 800 600 test_world = (Inr win, s')"
    using Window_ctor_completes [of test_world 0 "''Test''" 800 600]
    by (auto simp: test_world_def)
  have o: "IsOpen win"
    using Window_ctor_Inr_D(4) [OF c] by (simp add: IsOpen_def next_hwnd_def test_world_def)
  have q: "closes quit_msg" by (simp add: closes_def quit_msg_def)
  let ?st = "PollEvents win (s'\<lparr>queue := [quit_msg]\<rparr>)"
  from close_is_final [of "s'\<lparr>queue := [quit_msg]\<rparr>" win ?st] q c o show ?thesis
    by auto
qed

text \<open>
  C5. \<open>Draw\<close> returns the surface as it was: the framebuffer holds the same pattern
  \<open>P\<close> after one call and after two, and each call hands exactly \<open>P\<close> to the blit.
\<close>

theorem present_keeps_framebuffer:
  "fst (Draw w s) = w \<and>
   m_framebuffer (fst (Draw (w\<lparr>m_framebuffer := P\<rparr>) s)) = P \<and>
   (let (w1, s1) = Draw (w\<lparr>m_framebuffer := P\<rparr>) s; (w2, s2) = Draw w1 s1
    in m_framebuffer w1 = P \<and> m_framebuffer w2 = P \<and>
       blits (trace s2) = blits (trace s) @ [P, P])"
proof -
  let ?w = "w\<lparr>m_framebuffer := P\<rparr>"
  obtain w1 s1 where d1: "Draw ?w s = (w1, s1)" by (cases "Draw ?w s")
  obtain w2 s2 where d2: "Draw w1 s1 = (w2, s2)" by (cases "Draw w1 s1")
  have w1: "w1 = ?w" using Draw_window [of ?w s] d1 by simp
  have w2: "w2 = ?w" using Draw_window [of w1 s1] d2 w1 by simp
  have b1: "blits (trace s1) = blits (trace s) @ [P]"
    using Draw_world(3) [of ?w s] d1 by simp
  have b2: "blits (trace s2) = blits (trace s1) @ [P]"
    using Draw_world(3) [of w1 s1] d2 w1 by simp
  have "m_framebuffer w1 = P \<and> m_framebuffer w2 = P \<and>
      blits (trace s2) = blits (trace s) @ [P, P]"
    by (simp add: w1 w2 b1 b2)
  then have "let (w1, s1) = Draw ?w s; (w2, s2) = Draw w1 s1
    in m_framebuffer w1 = P \<and> m_framebuffer w2 = P \<and>
       blits (trace s2) = blits (trace s) @ [P, P]"
    by (simp only: d1 d2 Let_def prod.case)
  then show ?thesis
    by (simp only: Draw_window) simp
qed

text \<open>
  C6. The presentation descriptor of a constructed surface holds the width as given,
  the height negated, one plane, 32 bits per pixel, no compression and the size of the
  header; no sequence of later calls or message arrivals changes it. The height is
  negated as an \<^verbatim>\<open>int\<close>: the stored value is the arithmetic negation for every height
  but the least \<^verbatim>\<open>int\<close>, so for every positive height.
\<close>

theorem presentation_descriptor:
  assumes "Window_ctor title W H s = (Inr win, s')"
  shows "biWidth (bmiHeader (m_bmi win)) = GetWidth win \<and> GetWidth win = W \<and>
         biHeight (bmiHeader (m_bmi win)) = - GetHeight win \<and> GetHeight win = H \<and>
         (sint H \<noteq> - (2 ^ 31) \<longrightarrow>
            sint (biHeight (bmiHeader (m_bmi win))) = - sint (GetHeight win)) \<and>
         biPlanes (bmiHeader (m_bmi win)) = 1 \<and>
         biBitCount (bmiHeader (m_bmi win)) = 32 \<and>
         biCompression (bmiHeader (m_bmi win)) = BI_RGB \<and>
         biSize (bmiHeader (m_bmi win)) = sizeof_BITMAPINFOHEADER \<and>
         (\<forall>steps st. m_bmi (fst (run steps (win, st))) = m_bmi win)"
proof -
  have "m_bmi (fst (run steps (win, st))) = m_bmi win" for steps st
    using run_fixed [of steps "(win, st)"] by (simp add: fixed_part_def)
  then show ?thesis
    using Window_ctor_Inr_D(3,6) [OF assms]
    by (simp add: GetWidth_def GetHeight_def sint_neg_not_min)
qed

theorem presentation_descriptor_witness:
  "\<exists>win s'. Window_ctor 0 800 600 test_world = (Inr win, s') \<and>
     sint (600 :: cint) \<noteq> - (2 ^ 31) \<and>
     sint (biWidth (bmiHeader (m_bmi win))) = 800 \<and>
     sint (biHeight (bmiHeader (m_bmi win))) = - 600 \<and>
     biPlanes (bmiHeader (m_bmi win)) = 1 \<and>
     biBitCount (bmiHeader (m_bmi win)) = 32 \<and>
     biCompression (bmiHeader (m_bmi win)) = 0 \<and>
     m_bmi (fst (run [Invoke Call_PollEvents, Invoke Call_Draw] (win, s'))) = m_bmi win"
proof -
  obtain win s' where c: "Window_ctor 0 800 600 test_world = (Inr win, s')"
    using Window_ctor_completes [of test_world 0 "''Test''" 800 600]
    by (auto simp: test_world_def)
  from presentation_descriptor [OF c] c show ?thesis
    by (auto simp: GetWidth_def GetHeight_def BI_RGB_def)
qed

text \<open>
  C7. \<open>PollEvents\<close> always returns, and with an empty queue: it takes every pending
  message off the queue and dispatches each, in order, followed by the \<^verbatim>\<open>WM_QUIT\<close>
  messages posted meanwhile. A \<^verbatim>\<open>WM_QUIT\<close> closes the surface; the native handle is
  kept and \<^verbatim>\<open>DestroyWindow\<close> is not called. The window procedure answers
  \<^verbatim>\<open>WM_DESTROY\<close> with \<^verbatim>\<open>PostQuitMessage(0)\<close>, once per such message, and hands every
  other message of a window to \<^verbatim>\<open>DefWindowProc\<close>.
\<close>

theorem poll_events_drains:
  "queue (snd (PollEvents w s)) = [] \<and>
   dispatched (trace (snd (PollEvents w s))) =
     dispatched (trace s) @ queue s @
       replicate (length (filter posts_quit (queue s))) quit_msg \<and>
   ((\<exists>m \<in> set (queue s). message m = WM_QUIT) \<longrightarrow> \<not> IsOpen (fst (PollEvents w s))) \<and>
   m_window_handle (fst (PollEvents w s)) = m_window_handle w \<and>
   destroyed (trace (snd (PollEvents w s))) = destroyed (trace s) \<and>
   WindowProc h WM_DESTROY wp lp sp = PostQuitMessage 0 sp \<and>
   quits_posted (trace (snd (PollEvents w s))) =
     quits_posted (trace s) @ replicate (length (filter posts_quit (queue s))) 0 \<and>
   (uMsg \<noteq> WM_DESTROY \<longrightarrow> WindowProc h uMsg wp lp sp = DefWindowProc h uMsg wp lp sp) \<and>
   defaulted (trace (snd (PollEvents w s))) =
     defaulted (trace s) @
       map (\<lambda>m. (hwnd m, message m, wParam m, lParam m))
         (filter (\<lambda>m. hwnd m \<noteq> None \<and> message m \<noteq> WM_DESTROY) (queue s))"
proof -
  have "(\<exists>m \<in> set (queue s). message m = WM_QUIT) \<longrightarrow> \<not> IsOpen (fst (PollEvents w s))"
    by (auto simp: IsOpen_def PollEvents_window closes_def)
  moreover have "m_window_handle (fst (PollEvents w s)) = m_window_handle w"
    by (simp add: PollEvents_window)
  moreover have "WindowProc h WM_DESTROY wp lp sp = PostQuitMessage 0 sp"
    by (simp add: WindowProc_def)
  moreover have "uMsg \<noteq> WM_DESTROY \<longrightarrow> WindowProc h uMsg wp lp sp = DefWindowProc h uMsg wp lp sp"
    by (simp add: WindowProc_def)
  ultimately show ?thesis
    using PollEvents_world [of w s] PollEvents_calls [of w s]
    by simp
qed

text \<open>
  A window's \<^verbatim>\<open>WM_DESTROY\<close>, a window's \<^verbatim>\<open>WM_PAINT\<close> (15) and a \<^verbatim>\<open>WM_QUIT\<close> are pending
  for an open surface: one poll empties the queue, dispatches the three and the
  \<^verbatim>\<open>WM_QUIT\<close> that the \<^verbatim>\<open>WM_DESTROY\<close> brought, hands the paint message to the default
  procedure, destroys nothing and leaves the surface closed.
\<close>

theorem poll_events_drains_witness:
  "\<exists>win s' r. Window_ctor 0 800 600 test_world = (Inr win, s') \<and> IsOpen win \<and>
     r = PollEvents win
           (s'\<lparr>queue := [\<lparr>hwnd = Some 1, message = WM_DESTROY, wParam = 0, lParam = 0\<rparr>,
                         \<lparr>hwnd = Some 1, message = 15, wParam = 0, lParam = 0\<rparr>,
                         quit_msg]\<rparr>) \<and>
     queue (snd r) = [] \<and> \<not> IsOpen (fst r) \<and>
     dispatched (trace (snd r)) =
       [\<lparr>hwnd = Some 1, message = WM_DESTROY, wParam = 0, lParam = 0\<rparr>,
        \<lparr>hwnd = Some 1, message = 15, wParam = 0, lParam = 0\<rparr>, quit_msg, quit_msg] \<and>
     defaulted (trace (snd r)) = [(Some 1, 15, 0, 0)] \<and>
     quits_posted (trace (snd r)) = [0] \<and>
     destroyed (trace (snd r)) = [] \<and>
     m_window_handle (fst r) = m_window_handle win \<and>
     WindowProc (Some 1) 15 0 0 s' = DefWindowProc (Some 1) 15 0 0 s'"
proof -
  obtain win s' where c: "Window_ctor 0 800 600 test_world = (Inr win, s')"
    using Window_ctor_completes [of test_world 0 "''Test''" 800 600]
    by (auto simp: test_world_def)
  have o: "IsOpen win"
    using Window_ctor_Inr_D(4) [OF c] by (simp add: IsOpen_def next_hwnd_def test_world_def)
  have t: "trace s' = [E_RegisterClass, E_CreateWindowEx ''Test'' 800 600 (Some 1),
      E_ShowWindow (Some 1)]"
    using Window_ctor_Inr_D(1) [OF c] by (simp add: next_hwnd_def test_world_def)
  let ?q = "[\<lparr>hwnd = Some 1, message = WM_DESTROY, wParam = 0, lParam = 0\<rparr>,
             \<lparr>hwnd = Some 1, message = 15, wParam = 0, lParam = 0\<rparr>, quit_msg]"
  from poll_events_drains [where w = win and s = "s'\<lparr>queue := ?q\<rparr>" and h = "Some 1"
      and wp = 0 and lp = 0 and uMsg = 15 and sp = s'] c o t show ?thesis
    by (simp add: posts_quit_def quit_msg_def WM_DESTROY_def WM_QUIT_def)
qed

text \<open>
  C8. No sequence of method calls and message arrivals changes the title reference,
  the width, the height or the presentation descriptor of a surface, nor the strings
  of the caller (so the title reads the same); and the four accessors return the
  stored member and leave the surface and the world exactly as they were.
\<close>

theorem surface_fields_fixed:
  "m_title (fst (run steps (w, s))) = m_title w \<and>
   m_width (fst (run steps (w, s))) = m_width w \<and>
   m_height (fst (run steps (w, s))) = m_height w \<and>
   m_bmi (fst (run steps (w, s))) = m_bmi w \<and>
   strings (snd (run steps (w, s))) = strings s \<and>
   invoke Call_GetTitle w s = (R_string_ref (m_title w), w, s) \<and>
   invoke Call_GetWidth w s = (R_int (m_width w), w, s) \<and>
   invoke Call_GetHeight w s = (R_int (m_height w), w, s) \<and>
   invoke Call_GetWindowHandle w s = (R_handle (m_window_handle w), w, s)"
  using run_fixed [of steps "(w, s)"] run_strings [of steps "(w, s)"]
  by (simp add: fixed_part_def GetTitle_def GetWidth_def GetHeight_def GetWindowHandle_def)

text \<open>
  C9. The factory and the constructor do not look at the dimensions. Whatever the
  width and height are, they are handed to \<^verbatim>\<open>CreateWindowEx\<close> as they are, and the
  framebuffer is sized by their product, computed as an \<^verbatim>\<open>int\<close> and converted to
  \<^verbatim>\<open>size_t\<close>. A surface comes back exactly when that \<^verbatim>\<open>int\<close> is not negative and can
  be allocated, so a zero or two negative dimensions are accepted; a negative product
  is not rejected either, it makes \<^verbatim>\<open>resize\<close> throw.
\<close>

theorem dimensions_not_validated:
  assumes "strings s title = Some t"
  shows "trace (snd (Create True title W H s)) =
           trace s @ [E_RegisterClass, E_CreateWindowEx t W H (next_hwnd s),
             E_ShowWindow (next_hwnd s)] \<and>
         ((\<exists>win s'. Create True title W H s = (Inr (Some win), s') \<and>
              GetWidth win = W \<and> GetHeight win = H \<and>
              length (m_framebuffer win) = to_size_t (W * H)) \<longleftrightarrow>
          (0 \<le> sint (W * H) \<and> nat (sint (W * H)) \<le> heap_limit s)) \<and>
         (sint (W * H) < 0 \<longrightarrow> fst (Create True title W H s) = Inl Length_error)"
proof (intro conjI)
  show "trace (snd (Create True title W H s)) =
           trace s @ [E_RegisterClass, E_CreateWindowEx t W H (next_hwnd s),
             E_ShowWindow (next_hwnd s)]"
    by (simp add: Create_True_eq Window_ctor_closed [OF assms])
next
  show "(\<exists>win s'. Create True title W H s = (Inr (Some win), s') \<and>
              GetWidth win = W \<and> GetHeight win = H \<and>
              length (m_framebuffer win) = to_size_t (W * H)) \<longleftrightarrow>
          (0 \<le> sint (W * H) \<and> nat (sint (W * H)) \<le> heap_limit s)"
    (is "?L \<longleftrightarrow> ?R")
  proof
    assume ?L
    then obtain win s' where "Window_ctor title W H s = (Inr win, s')"
      by (auto simp: Create_True)
    then show ?R by (rule Window_ctor_Inr_D(2))
  next
    assume r: ?R
    then obtain win s' where c: "Window_ctor title W H s = (Inr win, s')"
      using Window_ctor_completes_wrapped [OF assms, of W H] by blast
    have "length (m_framebuffer win) = to_size_t (W * H)"
      using Window_ctor_Inr_D(5) [OF c] r by (simp add: to_size_t_nonneg)
    then show ?L
      using c Window_ctor_Inr_D(3) [OF c]
      by (auto simp: Create_True GetWidth_def GetHeight_def)
  qed
next
  show "sint (W * H) < 0 \<longrightarrow> fst (Create True title W H s) = Inl Length_error"
  proof
    assume "sint (W * H) < 0"
    then have "vector_max_size < to_size_t (W * H)" by (rule to_size_t_neg)
    then show "fst (Create True title W H s) = Inl Length_error"
      by (simp add: Create_True_eq Window_ctor_closed [OF assms])
  qed
qed

text \<open>
  Three calls no validation would let through: \<open>-1\<close> by \<open>-1\<close> gives a surface of one
  pixel, 65536 by 65536 a surface with no pixel (the product wraps to 0), and 50000 by
  50000 (the product wraps to a negative \<^verbatim>\<open>int\<close>) ends in \<^verbatim>\<open>std::length_error\<close>.
\<close>

theorem dimensions_not_validated_witness:
  "(\<exists>win s'. Create True 0 (- 1) (- 1) test_world = (Inr (Some win), s') \<and>
      GetWidth win = - 1 \<and> GetHeight win = - 1 \<and> length (m_framebuffer win) = 1) \<and>
   trace (snd (Create True 0 (- 1) (- 1) test_world)) =
     [E_RegisterClass, E_CreateWindowEx ''Test'' (- 1) (- 1) (Some 1), E_ShowWindow (Some 1)] \<and>
   (\<exists>win s'. Create True 0 65536 65536 test_world = (Inr (Some win), s') \<and>
      GetWidth win = 65536 \<and> GetHeight win = 65536 \<and> length (m_framebuffer win) = 0) \<and>
   sint ((50000 :: cint) * 50000) < 0 \<and>
   fst (Create True 0 50000 50000 test_world) = Inl Length_error"
proof -
  have t: "strings test_world 0 = Some ''Test''" by (simp add: test_world_def)
  have a: "(\<exists>win s'. Create True 0 (- 1) (- 1) test_world = (Inr (Some win), s') \<and>
      GetWidth win = - 1 \<and> GetHeight win = - 1 \<and> length (m_framebuffer win) = 1) \<and>
    trace (snd (Create True 0 (- 1) (- 1) test_world)) =
     [E_RegisterClass, E_CreateWindowEx ''Test'' (- 1) (- 1) (Some 1), E_ShowWindow (Some 1)]"
    using dimensions_not_validated [OF t, of "- 1" "- 1"]
    by (simp add: test_world_def next_hwnd_def to_size_t_def)
  have b: "\<exists>win s'. Create True 0 65536 65536 test_world = (Inr (Some win), s') \<and>
      GetWidth win = 65536 \<and> GetHeight win = 65536 \<and> length (m_framebuffer win) = 0"
    using dimensions_not_validated [OF t, of 65536 65536]
    by (simp add: test_world_def to_size_t_def)
  have n: "sint ((50000 :: cint) * 50000) < 0" by simp
  have c: "fst (Create True 0 50000 50000 test_world) = Inl Length_error"
    using dimensions_not_validated [OF t, of 50000 50000] n by blast
  from a b n c show ?thesis by blast
qed

text \<open>
  C10. The runtime's loop polls and draws and does nothing else: the framebuffer at
  the end of the loop is the one at its start, and every blit of the run carries that
  same content. For \<^verbatim>\<open>main\<close> this content is the fill of the constructor, 480000
  entries \<^verbatim>\<open>0xFF0000FF\<close>, whatever messages arrive and whether or not the window could
  be created.
\<close>

theorem runtime_presents_fill_only:
  "m_framebuffer (fst (snd (runtime_loop arrivals w s))) = m_framebuffer w \<and>
   (\<exists>k \<le> length arrivals.
      blits (trace (snd (snd (runtime_loop arrivals w s)))) =
        blits (trace s) @ replicate k (m_framebuffer w)) \<and>
   (\<exists>k \<le> length arrivals.
      blits (trace (snd (runtime_main WIN32 tmp arrivals s0))) =
        blits (trace s0) @ replicate k (replicate 480000 0xFF0000FF))"
proof -
  let ?s1 = "s0\<lparr>strings := (strings s0)(tmp \<mapsto> ''Rasterizer'')\<rparr>"
  obtain r s2 where c: "Create WIN32 tmp 800 600 ?s1 = (r, s2)"
    by (cases "Create WIN32 tmp 800 600 ?s1")
  let ?s3 = "s2\<lparr>strings := (strings s2)(tmp := None)\<rparr>"
  have t: "strings ?s1 tmp = Some ''Rasterizer''" by simp
  have b2: "blits (trace s2) = blits (trace s0)"
  proof (cases WIN32)
    case False
    with c show ?thesis by (auto simp: Create_def)
  next
    case True
    have "s2 = snd (Create True tmp 800 600 ?s1)"
      using c True by simp
    then have "trace s2 = trace ?s1 @ [E_RegisterClass,
        E_CreateWindowEx ''Rasterizer'' 800 600 (next_hwnd ?s1), E_ShowWindow (next_hwnd ?s1)]"
      by (simp only: Create_trace [OF t])
    then show ?thesis by (simp add: blits_append)
  qed
  have main: "\<exists>k \<le> length arrivals.
      blits (trace (snd (runtime_main WIN32 tmp arrivals s0))) =
        blits (trace s0) @ replicate k (replicate 480000 0xFF0000FF)"
  proof (cases r)
    case (Inl e)
    then have "snd (runtime_main WIN32 tmp arrivals s0) = ?s3"
      using c by (simp add: runtime_main_def)
    then show ?thesis using b2 by simp
  next
    case (Inr p)
    show ?thesis
    proof (cases p)
      case None
      then have "snd (runtime_main WIN32 tmp arrivals s0) = ?s3"
        using c Inr by (simp add: runtime_main_def)
      then show ?thesis using b2 by simp
    next
      case (Some window)
      have W: "WIN32" using c Inr Some by (auto simp: Create_def split: if_splits)
      have ct: "Window_ctor tmp 800 600 ?s1 = (Inr window, s2)"
        using c Inr Some W by (simp add: Create_True)
      have fb: "m_framebuffer window = replicate 480000 0xFF0000FF"
        using Window_ctor_Inr_D(5) [OF ct] by simp
      obtain b w' s4 where l: "runtime_loop arrivals window ?s3 = (b, w', s4)"
        by (cases "runtime_loop arrivals window ?s3")
      from runtime_loop_effect [of arrivals window ?s3] l obtain k
        where k: "k \<le> length arrivals"
          and bk: "blits (trace s4) = blits (trace ?s3) @ replicate k (m_framebuffer window)"
        by auto
      have "blits (trace (snd (runtime_main WIN32 tmp arrivals s0))) = blits (trace s4)"
        using c Inr Some l by (cases b) (simp_all add: runtime_main_def Window_dtor_blits)
      with bk b2 fb k show ?thesis by auto
    qed
  qed
  show ?thesis using runtime_loop_effect [of arrivals w s] main by blast
qed

end
